theory Spec2Isabelle
  imports Main
begin

section \<open>Data model of \<^verbatim>\<open>memoize/wrapper.py\<close>\<close>

text \<open>
  The module defines three coroutines inside \<^verbatim>\<open>memoize(...)\<close>: \<^verbatim>\<open>try_release\<close>,
  \<^verbatim>\<open>refresh\<close> and \<^verbatim>\<open>wrapper\<close>. They are embedded as functions that take the state
  of the cache (the \<open>world\<close>) and return a result together with the new state.
  What a collaborator answers (the user's method, the storage, the eviction strategy, the
  latch of a concurrent refresh) is not decided by this module; it is read from a record
  of \<open>answers\<close>, one field per call site.
\<close>

subsection \<open>Python values, exceptions, results\<close>

text \<open>Call arguments. \<open>truthy\<close> is Python's truth value, as \<^verbatim>\<open>elif force_refresh:\<close> takes it.\<close>

datatype pyval = PNone | PBool bool | PInt int | PStr string

fun truthy :: "pyval \<Rightarrow> bool" where
  "truthy PNone = False"
| "truthy (PBool b) = b"
| "truthy (PInt i) = (i \<noteq> 0)"
| "truthy (PStr s) = (s \<noteq> [])"

type_synonym args = "pyval list"
type_synonym kwargs = "(string \<times> pyval) list"

text \<open>
  Instances of Python's \<^verbatim>\<open>Exception\<close>: the ones \<^verbatim>\<open>except Exception\<close> catches.
  \<open>CachedMethodFailedException msg cause\<close> carries its \<^verbatim>\<open>__cause__\<close>
  (\<^verbatim>\<open>raise ... from e\<close>).
\<close>

datatype exn =
    TimeoutError
  | RuntimeError string
  | ValueError string
  | OtherError string
  | NotConfiguredCacheCalledException
  | CachedMethodFailedException string exn

text \<open>
  How a call or an \<^verbatim>\<open>await\<close> ends: with a value, with an \<^verbatim>\<open>Exception\<close> raised, or
  with \<^verbatim>\<open>asyncio.CancelledError\<close> thrown into the coroutine at the \<^verbatim>\<open>await\<close>.
  \<^verbatim>\<open>CancelledError\<close> derives from \<^verbatim>\<open>BaseException\<close> only, so no
  \<^verbatim>\<open>except Exception\<close> clause catches it; \<^verbatim>\<open>finally\<close> clauses still run.
\<close>

datatype 'a outcome = Returned 'a | Raised exn | Cancelled

subsection \<open>Cache entries\<close>

text \<open>\<^verbatim>\<open>CacheEntry\<close>: a value and three UTC instants (here integers on one time line).\<close>

record 'v entry =
  created :: int
  update_after :: int
  expires_after :: int
  "value" :: 'v

subsection \<open>Update status tracker\<close>

text \<open>
  Modelled from the spec: \<^verbatim>\<open>memoize.statuses.UpdateStatuses\<close> is not among the sources.
  Section 4.1 of the specification gives its contract: a registry with at most one
  unresolved latch per key; \<open>mark_being_updated\<close> inserts a fresh unresolved latch and
  returns it; \<open>mark_updated\<close> and \<open>mark_update_aborted\<close> resolve the latch of the key (with
  the entry, or with a failure carrying the cause) and remove the registry row. A latch
  is an \<^verbatim>\<open>asyncio.Future\<close>; it is named by a number, \<open>resolved\<close> holds the result of every
  future that is done. The specification does not say what resolving does when the key
  has no row; here it leaves the tracker as it is.
\<close>

datatype 'v latch_result = Delivered "'v entry" | Failed exn

record ('k, 'v) tracker =
  in_progress :: "'k \<rightharpoonup> nat"
  resolved :: "nat \<rightharpoonup> 'v latch_result"
  next_latch :: nat

definition is_being_updated :: "('k, 'v) tracker \<Rightarrow> 'k \<Rightarrow> bool" where
  "is_being_updated t key = (in_progress t key \<noteq> None)"

definition future_done :: "('k, 'v) tracker \<Rightarrow> nat \<Rightarrow> bool" where
  "future_done t fut = (resolved t fut \<noteq> None)"

definition tracker_claim :: "'k \<Rightarrow> ('k, 'v) tracker \<Rightarrow> nat \<times> ('k, 'v) tracker" where
  "tracker_claim key t =
     (next_latch t,
      t\<lparr>in_progress := (in_progress t)(key \<mapsto> next_latch t),
        resolved := (resolved t)(next_latch t := None),
        next_latch := Suc (next_latch t)\<rparr>)"

definition tracker_resolve ::
  "'k \<Rightarrow> 'v latch_result \<Rightarrow> ('k, 'v) tracker \<Rightarrow> ('k, 'v) tracker" where
  "tracker_resolve key r t =
     (case in_progress t key of
        None \<Rightarrow> t
      | Some fut \<Rightarrow>
          t\<lparr>in_progress := (in_progress t)(key := None),
            resolved := (resolved t)(fut \<mapsto> r)\<rparr>)"

text \<open>\<^verbatim>\<open>future.set_result(err)\<close> on a future that is not done.\<close>

definition tracker_set_result ::
  "nat \<Rightarrow> 'v latch_result \<Rightarrow> ('k, 'v) tracker \<Rightarrow> ('k, 'v) tracker" where
  "tracker_set_result fut r t = t\<lparr>resolved := (resolved t)(fut \<mapsto> r)\<rparr>"

subsection \<open>The state of the cache and the calls made on it\<close>

text \<open>
  Every call this module makes on a collaborator is appended to \<open>trace\<close>, so that the
  order of the calls can be stated. \<open>LogError\<close> stands for \<^verbatim>\<open>logger.error\<close>; the
  \<^verbatim>\<open>logger.debug\<close> lines are left out. \<open>scheduled\<close> holds what was handed to
  \<^verbatim>\<open>asyncio.get_event_loop().call_soon(asyncio.ensure_future, ...)\<close>: coroutines that
  have not started.
\<close>

datatype ('k, 'v) event =
    FormatKey args kwargs
  | StorageGet 'k
  | MarkRead 'k
  | MethodCalled args kwargs
  | AwaitUpdated 'k
  | MarkBeingUpdated 'k
  | Build 'k 'v
  | StorageOffer 'k "'v entry"
  | MarkUpdated 'k "'v entry"
  | MarkUpdateAborted 'k exn
  | SetResult nat exn
  | MarkWritten 'k "'v entry"
  | NextToRelease
  | StorageRelease 'k
  | MarkReleased 'k
  | LogError string

datatype ('k, 'v) task =
    RefreshTask "'v entry option" 'k args kwargs
  | TryReleaseTask 'k

record ('k, 'v) world =
  statuses :: "('k, 'v) tracker"
  store :: "'k \<rightharpoonup> 'v entry"
  trace :: "('k, 'v) event list"
  scheduled :: "('k, 'v) task list"

definition emit :: "('k, 'v) event \<Rightarrow> ('k, 'v) world \<Rightarrow> ('k, 'v) world" where
  "emit ev w = w\<lparr>trace := trace w @ [ev]\<rparr>"

definition call_soon :: "('k, 'v) task \<Rightarrow> ('k, 'v) world \<Rightarrow> ('k, 'v) world" where
  "call_soon tk w = w\<lparr>scheduled := scheduled w @ [tk]\<rparr>"

subsection \<open>Collaborators\<close>

text \<open>
  The configuration snapshot: whether it is configured, the key extractor, the entry
  builder (which may raise) and the post-processing of returned values.
\<close>

record ('k, 'v) configuration =
  configured :: bool
  format_key :: "args \<Rightarrow> kwargs \<Rightarrow> 'k"
  build :: "'k \<Rightarrow> 'v \<Rightarrow> exn + 'v entry"
  postprocessing :: "'v \<Rightarrow> 'v"

text \<open>
  What the collaborators answer during one call. A synchronous call returns or raises
  an \<^verbatim>\<open>Exception\<close>; an awaited one may also be cancelled.
  \<open>method_call\<close> is \<^verbatim>\<open>value_future_provider()\<close>: \<open>Inl e\<close> when
  \<^verbatim>\<open>method(*args, **kwargs)\<close> raises while the future is being made, \<open>Inr f\<close> when it
  gives a future, \<open>f\<close> being what awaiting that future yields
  (\<open>Raised TimeoutError\<close> when \<^verbatim>\<open>asyncio.wait_for\<close> gives up after the method timeout).
\<close>

record ('k, 'v) answers =
  get_answer :: "unit outcome"
  mark_read_answer :: "exn option"
  method_call :: "exn + 'v outcome"
  latch_answer :: "'v latch_result outcome"
  offer_answer :: "unit outcome"
  failed_offer_rows :: "('k \<rightharpoonup> 'v entry) \<Rightarrow> ('k \<rightharpoonup> 'v entry)"
  mark_written_answer :: "exn option"
  next_to_release_answer :: "exn + 'k option"
  release_answer :: "unit outcome"
  mark_released_answer :: "exn option"

text \<open>
  Modelled from the spec: the storage classes are not among the sources. Section 4.4:
  \<open>get\<close> returns the entry of the key or nothing and may fail; \<open>offer\<close> replaces any
  existing row; \<open>release\<close> removes the row. The specification does not say what rows an
  \<open>offer\<close> that fails or is cancelled leaves behind (it may have written before it
  failed), so that is an answer of the storage too: \<open>failed_offer_rows\<close> maps the rows
  before the call to the rows after it. A \<open>release\<close> that fails or is cancelled leaves
  the rows as they were.
\<close>

definition storage_get ::
  "('k, 'v) answers \<Rightarrow> 'k \<Rightarrow> ('k, 'v) world \<Rightarrow> 'v entry option outcome \<times> ('k, 'v) world" where
  "storage_get ans key w =
     (case get_answer ans of
        Returned _ \<Rightarrow> (Returned (store w key), emit (StorageGet key) w)
      | Raised e \<Rightarrow> (Raised e, emit (StorageGet key) w)
      | Cancelled \<Rightarrow> (Cancelled, emit (StorageGet key) w))"

definition storage_offer ::
  "('k, 'v) answers \<Rightarrow> 'k \<Rightarrow> 'v entry \<Rightarrow> ('k, 'v) world \<Rightarrow> unit outcome \<times> ('k, 'v) world" where
  "storage_offer ans key e w =
     (case offer_answer ans of
        Returned _ \<Rightarrow> (Returned (), emit (StorageOffer key e) (w\<lparr>store := (store w)(key \<mapsto> e)\<rparr>))
      | Raised x \<Rightarrow>
          (Raised x,
           emit (StorageOffer key e) (w\<lparr>store := failed_offer_rows ans (store w)\<rparr>))
      | Cancelled \<Rightarrow>
          (Cancelled,
           emit (StorageOffer key e) (w\<lparr>store := failed_offer_rows ans (store w)\<rparr>)))"


text \<open>The tracker's operations as this module calls them, each leaving its mark in the trace.\<close>

definition mark_being_updated :: "'k \<Rightarrow> ('k, 'v) world \<Rightarrow> nat \<times> ('k, 'v) world" where
  "mark_being_updated key w =
     (case tracker_claim key (statuses w) of
        (fut, t) \<Rightarrow> (fut, emit (MarkBeingUpdated key) (w\<lparr>statuses := t\<rparr>)))"

definition mark_updated :: "'k \<Rightarrow> 'v entry \<Rightarrow> ('k, 'v) world \<Rightarrow> ('k, 'v) world" where
  "mark_updated key e w =
     emit (MarkUpdated key e) (w\<lparr>statuses := tracker_resolve key (Delivered e) (statuses w)\<rparr>)"

definition mark_update_aborted :: "'k \<Rightarrow> exn \<Rightarrow> ('k, 'v) world \<Rightarrow> ('k, 'v) world" where
  "mark_update_aborted key x w =
     emit (MarkUpdateAborted key x) (w\<lparr>statuses := tracker_resolve key (Failed x) (statuses w)\<rparr>)"

definition set_result :: "nat \<Rightarrow> exn \<Rightarrow> ('k, 'v) world \<Rightarrow> ('k, 'v) world" where
  "set_result fut x w =
     emit (SetResult fut x) (w\<lparr>statuses := tracker_set_result fut (Failed x) (statuses w)\<rparr>)"

text \<open>
  \<open>await_updated\<close>: with a latch in the registry the caller is suspended until the latch
  resolves, and receives what it was resolved with (or the await fails or is cancelled);
  with none it fails (section 4.1: an inconsistent-state error).
\<close>

definition await_updated ::
  "('k, 'v) answers \<Rightarrow> 'k \<Rightarrow> ('k, 'v) world \<Rightarrow> 'v latch_result outcome \<times> ('k, 'v) world" where
  "await_updated ans key w =
     (if is_being_updated (statuses w) key
      then (latch_answer ans, emit (AwaitUpdated key) w)
      else (Raised (ValueError ''inconsistent state''), emit (AwaitUpdated key) w))"

section \<open>The coroutines\<close>

subsection \<open>\<^verbatim>\<open>try_release\<close> (lines 64 to 74)\<close>


subsection \<open>\<^verbatim>\<open>refresh\<close> (lines 76 to 136)\<close>

text \<open>
  Lines 109 to 121: the eviction strategy is told of the write and asked for a key to
  release. \<^verbatim>\<open>finally: return offered_entry\<close> discards whatever was raised there.
\<close>

definition notify_eviction ::
  "('k, 'v) answers \<Rightarrow> 'k \<Rightarrow> 'v entry \<Rightarrow> ('k, 'v) world \<Rightarrow> ('k, 'v) world" where
  "notify_eviction ans key offered_entry w =
     (let w1 = emit (MarkWritten key offered_entry) w in
      case mark_written_answer ans of
        Some e \<Rightarrow>
          emit (LogError ''ignoring failure during eviction after successful refresh'') w1
      | None \<Rightarrow>
          (let w2 = emit NextToRelease w1 in
           case next_to_release_answer ans of
             Inl e \<Rightarrow>
               emit (LogError ''ignoring failure during eviction after successful refresh'') w2
           | Inr None \<Rightarrow> w2
           | Inr (Some to_release) \<Rightarrow> call_soon (TryReleaseTask to_release) w2))"

text \<open>Lines 103 to 121, the body of the outer \<^verbatim>\<open>try\<close>.\<close>

definition refresh_try ::
  "('k, 'v) configuration \<Rightarrow> ('k, 'v) answers \<Rightarrow> 'k \<Rightarrow> 'v outcome \<Rightarrow> ('k, 'v) world
     \<Rightarrow> 'v entry outcome \<times> ('k, 'v) world" where
  "refresh_try cfg ans key value_future w =
     (case value_future of
        Cancelled \<Rightarrow> (Cancelled, w)
      | Raised e \<Rightarrow> (Raised e, w)
      | Returned v \<Rightarrow>
          (case build cfg key v of
             Inl e \<Rightarrow> (Raised e, emit (Build key v) w)
           | Inr offered_entry \<Rightarrow>
               (case storage_offer ans key offered_entry (emit (Build key v) w) of
                  (Cancelled, w1) \<Rightarrow> (Cancelled, w1)
                | (Raised e, w1) \<Rightarrow> (Raised e, w1)
                | (Returned _, w1) \<Rightarrow>
                    (Returned offered_entry,
                     notify_eviction ans key offered_entry (mark_updated key offered_entry w1)))))"

text \<open>Lines 122 to 129, the two \<^verbatim>\<open>except\<close> clauses.\<close>

definition refresh_except ::
  "'k \<Rightarrow> 'v entry outcome \<times> ('k, 'v) world \<Rightarrow> 'v entry outcome \<times> ('k, 'v) world" where
  "refresh_except key rw =
     (case rw of
        (Raised e, w) \<Rightarrow>
          (if e = TimeoutError
           then (Raised (CachedMethodFailedException ''Refresh timed out'' e),
                 mark_update_aborted key e w)
           else (Raised (CachedMethodFailedException ''Refresh failed to complete'' e),
                 mark_update_aborted key e w))
      | (r, w) \<Rightarrow> (r, w))"

text \<open>Lines 130 to 136, the \<^verbatim>\<open>finally\<close> clause.\<close>

definition refresh_finally ::
  "'k \<Rightarrow> nat \<Rightarrow> 'v entry outcome \<times> ('k, 'v) world \<Rightarrow> 'v entry outcome \<times> ('k, 'v) world" where
  "refresh_finally key notification_future rw =
     (case rw of
        (r, w) \<Rightarrow>
          (let err = RuntimeError ''Attempt to exit refresh with unfinished future'';
               w1 = (if is_being_updated (statuses w) key then mark_update_aborted key err w else w);
               w2 = (if \<not> future_done (statuses w1) notification_future
                     then emit (LogError
                            ''Caught attempt to exit refresh for %s with future in unfinished state'')
                            (set_result notification_future err w1)
                     else w1)
           in (r, w2)))"

text \<open>
  The whole coroutine. \<open>value_future_provider\<close> is the callable the wrapper passes in.
  A latch is resolved with an entry or with an \<^verbatim>\<open>Exception\<close>, which is what
  \<^verbatim>\<open>isinstance(entry, Exception)\<close> tells apart.
\<close>

definition refresh ::
  "('k, 'v) configuration \<Rightarrow> ('k, 'v) answers \<Rightarrow> 'v entry option \<Rightarrow> 'k
     \<Rightarrow> (('k, 'v) world \<Rightarrow> (exn + 'v outcome) \<times> ('k, 'v) world)
     \<Rightarrow> ('k, 'v) world \<Rightarrow> 'v entry outcome \<times> ('k, 'v) world" where
  "refresh cfg ans actual_entry key value_future_provider w =
     (if is_being_updated (statuses w) key then
        (case actual_entry of
           None \<Rightarrow>
             (case await_updated ans key w of
                (Cancelled, w1) \<Rightarrow> (Cancelled, w1)
              | (Raised e, w1) \<Rightarrow> (Raised e, w1)
              | (Returned (Failed c), w1) \<Rightarrow>
                  (Raised (CachedMethodFailedException ''Concurrent refresh failed to complete'' c), w1)
              | (Returned (Delivered e), w1) \<Rightarrow> (Returned e, w1))
         | Some e \<Rightarrow> (Returned e, w))
      else
        (case value_future_provider w of
           (Inl e, w1) \<Rightarrow> (Raised (CachedMethodFailedException ''Refresh failed to start'' e), w1)
         | (Inr value_future, w1) \<Rightarrow>
             (case mark_being_updated key w1 of
                (notification_future, w2) \<Rightarrow>
                  refresh_finally key notification_future
                    (refresh_except key (refresh_try cfg ans key value_future w2)))))"

subsection \<open>\<^verbatim>\<open>wrapper\<close> (lines 139 to 181)\<close>

text \<open>\<^verbatim>\<open>kwargs.pop(name, default)\<close> on a dict given as its list of items.\<close>

definition kwargs_pop :: "kwargs \<Rightarrow> string \<Rightarrow> pyval \<Rightarrow> pyval \<times> kwargs" where
  "kwargs_pop kw name dflt =
     (case map_of kw name of
        None \<Rightarrow> (dflt, kw)
      | Some v \<Rightarrow> (v, filter (\<lambda>item. fst item \<noteq> name) kw))"

text \<open>Lines 155 to 160: the closure that launches the user's method under the timeout.\<close>

definition value_future_provider ::
  "('k, 'v) answers \<Rightarrow> args \<Rightarrow> kwargs \<Rightarrow> ('k, 'v) world \<Rightarrow> (exn + 'v outcome) \<times> ('k, 'v) world" where
  "value_future_provider ans a kw w = (method_call ans, emit (MethodCalled a kw) w)"

text \<open>Line 181.\<close>

definition return_value ::
  "('k, 'v) configuration \<Rightarrow> 'v entry outcome \<times> ('k, 'v) world \<Rightarrow> 'v outcome \<times> ('k, 'v) world" where
  "return_value cfg rw =
     (case rw of
        (Returned result, w) \<Rightarrow> (Returned (postprocessing cfg (value result)), w)
      | (Raised e, w) \<Rightarrow> (Raised e, w)
      | (Cancelled, w) \<Rightarrow> (Cancelled, w))"

text \<open>Lines 150 and 151.\<close>

definition notify_read ::
  "('k, 'v) answers \<Rightarrow> 'k \<Rightarrow> 'v entry option \<Rightarrow> ('k, 'v) world \<Rightarrow> exn option \<times> ('k, 'v) world" where
  "notify_read ans key current_entry w =
     (case current_entry of
        None \<Rightarrow> (None, w)
      | Some _ \<Rightarrow> (mark_read_answer ans, emit (MarkRead key) w))"

text \<open>Lines 162 to 179; \<open>now\<close> is the instant read at line 153.\<close>

definition dispatch ::
  "('k, 'v) configuration \<Rightarrow> ('k, 'v) answers \<Rightarrow> int \<Rightarrow> bool \<Rightarrow> 'v entry option \<Rightarrow> 'k
     \<Rightarrow> args \<Rightarrow> kwargs \<Rightarrow> ('k, 'v) world \<Rightarrow> 'v entry outcome \<times> ('k, 'v) world" where
  "dispatch cfg ans now force_refresh current_entry key a kw w =
     (case current_entry of
        None \<Rightarrow> refresh cfg ans None key (value_future_provider ans a kw) w
      | Some ce \<Rightarrow>
          if force_refresh then refresh cfg ans (Some ce) key (value_future_provider ans a kw) w
          else if expires_after ce \<le> now
          then refresh cfg ans None key (value_future_provider ans a kw) w
          else if update_after ce \<le> now
          then (Returned ce, call_soon (RefreshTask (Some ce) key a kw) w)
          else (Returned ce, w))"

definition wrapper ::
  "('k, 'v) configuration \<Rightarrow> ('k, 'v) answers \<Rightarrow> int \<Rightarrow> args \<Rightarrow> kwargs \<Rightarrow> ('k, 'v) world
     \<Rightarrow> 'v outcome \<times> ('k, 'v) world" where
  "wrapper cfg ans now a kwargs0 w =
     (if \<not> configured cfg then (Raised NotConfiguredCacheCalledException, w)
      else
        (case kwargs_pop kwargs0 ''force_refresh_memoized'' (PBool False) of
           (force_refresh, kw) \<Rightarrow>
             (let key = format_key cfg a kw in
              case storage_get ans key (emit (FormatKey a kw) w) of
                (Cancelled, w1) \<Rightarrow> (Cancelled, w1)
              | (Raised e, w1) \<Rightarrow> (Raised e, w1)
              | (Returned current_entry, w1) \<Rightarrow>
                  (case notify_read ans key current_entry w1 of
                     (Some e, w2) \<Rightarrow> (Raised e, w2)
                   | (None, w2) \<Rightarrow>
                       return_value cfg
                         (dispatch cfg ans now (truthy force_refresh) current_entry key a kw w2)))))"

subsection \<open>A call taken up again after its storage read\<close>

text \<open>
  Line 149 awaits \<open>storage.get\<close>: the coroutine is suspended there and other coroutines
  may run before it goes on. \<open>wrapper_after_read\<close> is the rest of \<open>wrapper\<close>, lines 150 to
  181, taken up with the entry the read produced, on the state of the cache as it is at
  that moment. When nothing ran in between, the two pieces make up \<open>wrapper\<close>
  (\<open>wrapper_split\<close> below).
\<close>

definition wrapper_after_read ::
  "('k, 'v) configuration \<Rightarrow> ('k, 'v) answers \<Rightarrow> int \<Rightarrow> bool \<Rightarrow> args \<Rightarrow> kwargs \<Rightarrow> 'k
     \<Rightarrow> 'v entry option \<Rightarrow> ('k, 'v) world \<Rightarrow> 'v outcome \<times> ('k, 'v) world" where
  "wrapper_after_read cfg ans now force_refresh a kw key current_entry w =
     (case notify_read ans key current_entry w of
        (Some e, w2) \<Rightarrow> (Raised e, w2)
      | (None, w2) \<Rightarrow>
          return_value cfg (dispatch cfg ans now force_refresh current_entry key a kw w2))"


section \<open>Observations and sample inputs\<close>

text \<open>
  The invocations of the user's method and the key derivations recorded in a trace, in
  order, each with the positional and the named arguments it was given.
\<close>

fun method_calls :: "('k, 'v) event list \<Rightarrow> (args \<times> kwargs) list" where
  "method_calls [] = []"
| "method_calls (MethodCalled a kw # evs) = (a, kw) # method_calls evs"
| "method_calls (ev # evs) = method_calls evs"

fun key_derivations :: "('k, 'v) event list \<Rightarrow> (args \<times> kwargs) list" where
  "key_derivations [] = []"
| "key_derivations (FormatKey a kw # evs) = (a, kw) # key_derivations evs"
| "key_derivations (ev # evs) = key_derivations evs"

text \<open>
  A configuration in the manner of scenario S1 of the specification: entries built at
  instant 0 turn stale at 10 and expire at 20. The key is the argument tuple itself.
\<close>

definition sample_entry :: "string \<Rightarrow> string entry" where
  "sample_entry v = \<lparr>created = 0, update_after = 10, expires_after = 20, value = v\<rparr>"

definition sample_cfg :: "(args \<times> kwargs, string) configuration" where
  "sample_cfg =
     \<lparr>configured = True,
      format_key = (\<lambda>a kw. (a, kw)),
      build = (\<lambda>key v. Inr (sample_entry v)),
      postprocessing = (\<lambda>v. v @ ''!'')\<rparr>"

definition sample_key :: "args \<times> kwargs" where
  "sample_key = ([PStr ''a''], [])"

text \<open>Every collaborator answers without failing; the method returns \<open>''A2''\<close>.\<close>

definition all_well :: "(args \<times> kwargs, string) answers" where
  "all_well =
     \<lparr>get_answer = Returned (),
      mark_read_answer = None,
      method_call = Inr (Returned ''A2''),
      latch_answer = Returned (Delivered (sample_entry ''A1'')),
      offer_answer = Returned (),
      failed_offer_rows = (\<lambda>rows. rows),
      mark_written_answer = None,
      next_to_release_answer = Inr None,
      release_answer = Returned (),
      mark_released_answer = None\<rparr>"

text \<open>
  An empty cache; a cache holding the entry \<open>''A''\<close> for the sample key; and an empty
  cache with a refresh of the sample key in flight (latch 0, unresolved).
\<close>

definition cold :: "(args \<times> kwargs, string) world" where
  "cold =
     \<lparr>statuses = \<lparr>in_progress = Map.empty, resolved = Map.empty, next_latch = 0\<rparr>,
      store = Map.empty,
      trace = [],
      scheduled = []\<rparr>"

definition warm :: "(args \<times> kwargs, string) world" where
  "warm = cold\<lparr>store := [sample_key \<mapsto> sample_entry ''A'']\<rparr>"

definition busy :: "(args \<times> kwargs, string) world" where
  "busy = cold\<lparr>statuses := \<lparr>in_progress = [sample_key \<mapsto> 0], resolved = Map.empty,
                               next_latch = 1\<rparr>\<rparr>"


text \<open>A cache whose only entry was stored under a key made with a \<open>force_refresh\<close> argument.\<close>

definition flagged_key :: "args \<times> kwargs" where
  "flagged_key = ([PStr ''a''], [(''force_refresh'', PBool True)])"

definition flagged_warm :: "(args \<times> kwargs, string) world" where
  "flagged_warm = cold\<lparr>store := [flagged_key \<mapsto> sample_entry ''A'']\<rparr>"

section \<open>What each step does to the state\<close>

lemma claimed_fields:
  "statuses (snd (mark_being_updated key w)) =
     (statuses w)\<lparr>in_progress := (in_progress (statuses w))(key \<mapsto> next_latch (statuses w)),
                  resolved := (resolved (statuses w))(next_latch (statuses w) := None),
                  next_latch := Suc (next_latch (statuses w))\<rparr>"
  "store (snd (mark_being_updated key w)) = store w"
  "trace (snd (mark_being_updated key w)) = trace w @ [MarkBeingUpdated key]"
  "scheduled (snd (mark_being_updated key w)) = scheduled w"
  by (simp_all add: mark_being_updated_def tracker_claim_def emit_def)

lemma resolve_fields:
  "statuses (mark_updated key e w) = tracker_resolve key (Delivered e) (statuses w)"
  "store (mark_updated key e w) = store w"
  "trace (mark_updated key e w) = trace w @ [MarkUpdated key e]"
  "scheduled (mark_updated key e w) = scheduled w"
  "statuses (mark_update_aborted key x w) = tracker_resolve key (Failed x) (statuses w)"
  "store (mark_update_aborted key x w) = store w"
  "trace (mark_update_aborted key x w) = trace w @ [MarkUpdateAborted key x]"
  "scheduled (mark_update_aborted key x w) = scheduled w"
  by (simp_all add: mark_updated_def mark_update_aborted_def emit_def)

lemma notify_eviction_fields:
  "statuses (notify_eviction ans key e w) = statuses w"
  "store (notify_eviction ans key e w) = store w"
  "trace (notify_eviction ans key e w) =
     trace w @ MarkWritten key e #
       (case mark_written_answer ans of
          Some x \<Rightarrow> [LogError ''ignoring failure during eviction after successful refresh'']
        | None \<Rightarrow>
            NextToRelease #
            (case next_to_release_answer ans of
               Inl x \<Rightarrow> [LogError ''ignoring failure during eviction after successful refresh'']
             | Inr _ \<Rightarrow> []))"
  "scheduled (notify_eviction ans key e w) =
     scheduled w @
       (case mark_written_answer ans of
          Some x \<Rightarrow> []
        | None \<Rightarrow>
            (case next_to_release_answer ans of
               Inr (Some to_release) \<Rightarrow> [TryReleaseTask to_release]
             | _ \<Rightarrow> []))"
  by (simp_all add: notify_eviction_def emit_def call_soon_def Let_def
      split: option.splits sum.splits)

text \<open>Past the rendezvous branch and the start of the work, \<open>refresh\<close> is its three clauses.\<close>

lemma refresh_start:
  assumes "\<not> is_being_updated (statuses w) key"
    and "vfp w = (Inr value_future, w1)"
  shows "refresh cfg ans actual_entry key vfp w =
     refresh_finally key (next_latch (statuses w1))
       (refresh_except key
          (refresh_try cfg ans key value_future (snd (mark_being_updated key w1))))"
  using assms by (simp add: refresh_def mark_being_updated_def tracker_claim_def)

lemma refresh_try_success:
  assumes "build cfg key v = Inr offered_entry"
    and "offer_answer ans = Returned ()"
  shows "refresh_try cfg ans key (Returned v) w =
     (Returned offered_entry,
      notify_eviction ans key offered_entry
        (mark_updated key offered_entry
           (w\<lparr>store := (store w)(key \<mapsto> offered_entry),
              trace := trace w @ [Build key v, StorageOffer key offered_entry]\<rparr>)))"
  using assms by (simp add: refresh_try_def storage_offer_def emit_def)

lemma refresh_finally_idle:
  assumes "\<not> is_being_updated (statuses w) key"
    and "future_done (statuses w) fut"
  shows "refresh_finally key fut (r, w) = (r, w)"
  using assms by (simp add: refresh_finally_def Let_def)

lemma refresh_try_fails:
  "refresh_try cfg ans key (Raised e) w = (Raised e, w)"
  "build cfg key v = Inl e \<Longrightarrow>
     refresh_try cfg ans key (Returned v) w = (Raised e, w\<lparr>trace := trace w @ [Build key v]\<rparr>)"
  "build cfg key v = Inr offered_entry \<Longrightarrow> offer_answer ans = Raised e \<Longrightarrow>
     refresh_try cfg ans key (Returned v) w =
       (Raised e, w\<lparr>store := failed_offer_rows ans (store w),
                    trace := trace w @ [Build key v, StorageOffer key offered_entry]\<rparr>)"
  by (simp_all add: refresh_try_def storage_offer_def emit_def)

lemma refresh_try_cancelled:
  "refresh_try cfg ans key Cancelled w = (Cancelled, w)"
  "build cfg key v = Inr offered_entry \<Longrightarrow> offer_answer ans = Cancelled \<Longrightarrow>
     refresh_try cfg ans key (Returned v) w =
       (Cancelled, w\<lparr>store := failed_offer_rows ans (store w),
                    trace := trace w @ [Build key v, StorageOffer key offered_entry]\<rparr>)"
  by (simp_all add: refresh_try_def storage_offer_def emit_def)

text \<open>The handlers, on an exception raised while the key is claimed by latch \<open>fut\<close>.\<close>

lemma refresh_abort:
  assumes "in_progress (statuses w) key = Some fut"
  shows "refresh_finally key fut (refresh_except key (Raised e, w)) =
     (Raised (CachedMethodFailedException
                (if e = TimeoutError then ''Refresh timed out'' else ''Refresh failed to complete'') e),
      w\<lparr>statuses := (statuses w)\<lparr>in_progress := (in_progress (statuses w))(key := None),
                                 resolved := (resolved (statuses w))(fut \<mapsto> Failed e)\<rparr>,
         trace := trace w @ [MarkUpdateAborted key e]\<rparr>)"
  using assms
  by (simp add: refresh_except_def refresh_finally_def mark_update_aborted_def emit_def
      tracker_resolve_def is_being_updated_def future_done_def Let_def)

lemma refresh_aborted:
  assumes "\<not> is_being_updated (statuses w) key"
    and "vfp w = (Inr value_future, w1)"
    and "refresh_try cfg ans key value_future (snd (mark_being_updated key w1)) = (Raised e, w3)"
    and "statuses w3 = statuses (snd (mark_being_updated key w1))"
  shows "refresh cfg ans actual_entry key vfp w =
     (Raised (CachedMethodFailedException
                (if e = TimeoutError then ''Refresh timed out'' else ''Refresh failed to complete'') e),
      w3\<lparr>statuses :=
            (statuses w1)\<lparr>in_progress := (in_progress (statuses w1))(key := None),
                          resolved := (resolved (statuses w1))(next_latch (statuses w1) \<mapsto> Failed e),
                          next_latch := Suc (next_latch (statuses w1))\<rparr>,
         trace := trace w3 @ [MarkUpdateAborted key e]\<rparr>)"
proof -
  have "in_progress (statuses w3) key = Some (next_latch (statuses w1))"
    by (simp add: assms(4) claimed_fields)
  from refresh_abort [OF this, of e]
  have "refresh cfg ans actual_entry key vfp w =
     (Raised (CachedMethodFailedException
                (if e = TimeoutError then ''Refresh timed out'' else ''Refresh failed to complete'') e),
      w3\<lparr>statuses := (statuses w3)\<lparr>in_progress := (in_progress (statuses w3))(key := None),
                                  resolved := (resolved (statuses w3))
                                     (next_latch (statuses w1) \<mapsto> Failed e)\<rparr>,
         trace := trace w3 @ [MarkUpdateAborted key e]\<rparr>)"
    using refresh_start [of w key vfp value_future w1 cfg ans actual_entry] assms(1,2,3)
    by simp
  then show ?thesis
    by (simp add: assms(4) claimed_fields)
qed

text \<open>The \<^verbatim>\<open>finally\<close> clause, whatever reaches it.\<close>

lemma refresh_finally_post:
  "\<not> is_being_updated (statuses (snd (refresh_finally key fut rw))) key
   \<and> future_done (statuses (snd (refresh_finally key fut rw))) fut
   \<and> fst (refresh_finally key fut rw) = fst rw"
  by (cases rw)
    (simp add: refresh_finally_def Let_def mark_update_aborted_def set_result_def emit_def
      tracker_resolve_def tracker_set_result_def is_being_updated_def future_done_def
      split: option.splits)

lemma refresh_except_cancelled:
  "(fst (refresh_except key rw) = Cancelled) = (fst rw = Cancelled)"
  "fst rw = Cancelled \<Longrightarrow> refresh_except key rw = rw"
  by (cases rw; cases "fst rw"; simp add: refresh_except_def)+

lemma refresh_try_cancelled_statuses:
  assumes "fst (refresh_try cfg ans key value_future w) = Cancelled"
  shows "statuses (snd (refresh_try cfg ans key value_future w)) = statuses w"
  using assms
  by (simp add: refresh_try_def storage_offer_def emit_def
      split: outcome.splits sum.splits)

lemma refresh_finally_unresolved:
  assumes "in_progress (statuses w) key = Some fut"
  shows "refresh_finally key fut (r, w) =
     (r, mark_update_aborted key (RuntimeError ''Attempt to exit refresh with unfinished future'') w)"
  using assms
  by (simp add: refresh_finally_def Let_def mark_update_aborted_def emit_def
      tracker_resolve_def is_being_updated_def future_done_def)




text \<open>The observations distribute over traces; what \<open>kwargs_pop\<close> gives.\<close>

lemma method_calls_append: "method_calls (xs @ ys) = method_calls xs @ method_calls ys"
  by (induction xs rule: method_calls.induct) simp_all

lemma key_derivations_append:
  "key_derivations (xs @ ys) = key_derivations xs @ key_derivations ys"
  by (induction xs rule: key_derivations.induct) simp_all

lemma kwargs_pop_filter:
  "snd (kwargs_pop kw name dflt) = filter (\<lambda>item. fst item \<noteq> name) kw"
proof (cases "map_of kw name")
  case None
  then have "name \<notin> fst ` set kw"
    by (simp add: map_of_eq_None_iff)
  then have "filter (\<lambda>item. fst item \<noteq> name) kw = kw"
    by (intro filter_True) force
  with None show ?thesis by (simp add: kwargs_pop_def)
next
  case (Some v)
  then show ?thesis by (simp add: kwargs_pop_def)
qed

lemma kwargs_pop_flag:
  "fst (kwargs_pop kw name dflt) = (case map_of kw name of None \<Rightarrow> dflt | Some v \<Rightarrow> v)"
  by (simp add: kwargs_pop_def split: option.splits)

text \<open>Up to the dispatch, when the storage and the eviction strategy answer.\<close>

lemma wrapper_reaches_dispatch:
  assumes "configured cfg"
    and "get_answer ans = Returned ()"
    and "mark_read_answer ans = None"
  shows "wrapper cfg ans now a kwargs0 w =
     (let force_refresh = fst (kwargs_pop kwargs0 ''force_refresh_memoized'' (PBool False));
          kw = snd (kwargs_pop kwargs0 ''force_refresh_memoized'' (PBool False));
          key = format_key cfg a kw
      in return_value cfg
           (dispatch cfg ans now (truthy force_refresh) (store w key) key a kw
              (w\<lparr>trace := trace w @ FormatKey a kw # StorageGet key #
                            (case store w key of None \<Rightarrow> [] | Some _ \<Rightarrow> [MarkRead key])\<rparr>)))"
  using assms
  by (simp add: wrapper_def storage_get_def notify_read_def emit_def Let_def
      split: prod.splits option.splits)

text \<open>
  Which method calls and key derivations a run adds to the trace: \<open>refresh\<close> calls the
  method once when it starts the work and not at all in the rendezvous branch.
\<close>

lemma refresh_try_observed:
  "method_calls (trace (snd (refresh_try cfg ans key value_future w))) = method_calls (trace w)"
  "key_derivations (trace (snd (refresh_try cfg ans key value_future w))) =
     key_derivations (trace w)"
  by (simp_all add: refresh_try_def storage_offer_def emit_def notify_eviction_fields
      resolve_fields method_calls_append key_derivations_append
      split: outcome.splits sum.splits option.splits)

lemma refresh_except_observed:
  "method_calls (trace (snd (refresh_except key rw))) = method_calls (trace (snd rw))"
  "key_derivations (trace (snd (refresh_except key rw))) = key_derivations (trace (snd rw))"
  by (cases rw; cases "fst rw";
      simp add: refresh_except_def resolve_fields method_calls_append key_derivations_append)+

lemma refresh_finally_observed:
  "method_calls (trace (snd (refresh_finally key fut rw))) = method_calls (trace (snd rw))"
  "key_derivations (trace (snd (refresh_finally key fut rw))) = key_derivations (trace (snd rw))"
  by (cases rw;
      simp add: refresh_finally_def Let_def resolve_fields set_result_def emit_def
        method_calls_append key_derivations_append)+

lemma refresh_observed:
  "method_calls (trace (snd (refresh cfg ans actual_entry key (value_future_provider ans a kw) w))) =
     method_calls (trace w) @
       (if is_being_updated (statuses w) key then [] else [(a, kw)])"
  "key_derivations
     (trace (snd (refresh cfg ans actual_entry key (value_future_provider ans a kw) w))) =
     key_derivations (trace w)"
proof -
  let ?r = "refresh cfg ans actual_entry key (value_future_provider ans a kw) w"
  have "method_calls (trace (snd ?r)) =
      method_calls (trace w) @ (if is_being_updated (statuses w) key then [] else [(a, kw)])
    \<and> key_derivations (trace (snd ?r)) = key_derivations (trace w)"
  proof (cases "is_being_updated (statuses w) key")
    case True
    then show ?thesis
      by (simp add: refresh_def await_updated_def emit_def method_calls_append
          key_derivations_append split: option.splits outcome.splits latch_result.splits)
  next
    case False
    show ?thesis
    proof (cases "method_call ans")
      case (Inl x)
      with False show ?thesis
        by (simp add: refresh_def value_future_provider_def emit_def method_calls_append
            key_derivations_append)
    next
      case (Inr value_future)
      then have vfp: "value_future_provider ans a kw w =
          (Inr value_future, emit (MethodCalled a kw) w)"
        by (simp add: value_future_provider_def)
      show ?thesis
        using False
        by (simp add: refresh_start [where vfp = "value_future_provider ans a kw", OF False vfp]
            refresh_finally_observed refresh_except_observed refresh_try_observed
            claimed_fields emit_def method_calls_append key_derivations_append)
    qed
  qed
  then show "method_calls (trace (snd ?r)) =
      method_calls (trace w) @ (if is_being_updated (statuses w) key then [] else [(a, kw)])"
    and "key_derivations (trace (snd ?r)) = key_derivations (trace w)"
    by simp_all
qed

lemma return_value_snd: "snd (return_value cfg rw) = snd rw"
  by (cases rw; cases "fst rw"; simp add: return_value_def)

lemma dispatch_observed:
  "method_calls (trace (snd (dispatch cfg ans now force_refresh current_entry key a kw w))) =
     method_calls (trace w)
   \<or> method_calls (trace (snd (dispatch cfg ans now force_refresh current_entry key a kw w))) =
     method_calls (trace w) @ [(a, kw)]"
  "key_derivations (trace (snd (dispatch cfg ans now force_refresh current_entry key a kw w))) =
     key_derivations (trace w)"
  by (simp_all add: dispatch_def refresh_observed call_soon_def split: option.splits)

text \<open>Every path through \<open>wrapper\<close>.\<close>

lemma wrapper_paths:
  assumes "configured cfg"
  shows "wrapper cfg ans now a kwargs0 w =
     (let force_refresh = fst (kwargs_pop kwargs0 ''force_refresh_memoized'' (PBool False));
          kw = snd (kwargs_pop kwargs0 ''force_refresh_memoized'' (PBool False));
          key = format_key cfg a kw;
          w1 = w\<lparr>trace := trace w @ [FormatKey a kw, StorageGet key]\<rparr>;
          w2 = w\<lparr>trace := trace w @ [FormatKey a kw, StorageGet key, MarkRead key]\<rparr>
      in case get_answer ans of
           Cancelled \<Rightarrow> (Cancelled, w1)
         | Raised e \<Rightarrow> (Raised e, w1)
         | Returned _ \<Rightarrow>
             (case store w key of
                None \<Rightarrow>
                  return_value cfg (dispatch cfg ans now (truthy force_refresh) None key a kw w1)
              | Some ce \<Rightarrow>
                  (case mark_read_answer ans of
                     Some e \<Rightarrow> (Raised e, w2)
                   | None \<Rightarrow>
                       return_value cfg
                         (dispatch cfg ans now (truthy force_refresh) (Some ce) key a kw w2))))"
proof -
  obtain force_refresh kw
    where pop: "kwargs_pop kwargs0 ''force_refresh_memoized'' (PBool False) = (force_refresh, kw)"
    by (cases "kwargs_pop kwargs0 ''force_refresh_memoized'' (PBool False)")
  show ?thesis
  proof (cases "get_answer ans")
    case (Returned u)
    show ?thesis
    proof (cases "store w (format_key cfg a kw)")
      case None
      with Returned assms show ?thesis
        by (simp add: wrapper_def pop storage_get_def notify_read_def emit_def)
    next
      case (Some ce)
      with Returned assms show ?thesis
        by (cases "mark_read_answer ans")
          (simp_all add: wrapper_def pop storage_get_def notify_read_def emit_def)
    qed
  next
    case (Raised e)
    with assms show ?thesis
      by (simp add: wrapper_def pop storage_get_def emit_def)
  next
    case Cancelled
    with assms show ?thesis
      by (simp add: wrapper_def pop storage_get_def emit_def)
  qed
qed

lemma kwargs_pop_removes: "name \<notin> fst ` set (snd (kwargs_pop kw name dflt))"
  by (auto simp add: kwargs_pop_filter)


text \<open>The two pieces of \<open>wrapper\<close>, with nothing running between them.\<close>

lemma wrapper_split:
  assumes "configured cfg"
    and "get_answer ans = Returned ()"
  shows "wrapper cfg ans now a kwargs0 w =
     (let force_refresh = fst (kwargs_pop kwargs0 ''force_refresh_memoized'' (PBool False));
          kw = snd (kwargs_pop kwargs0 ''force_refresh_memoized'' (PBool False));
          key = format_key cfg a kw
      in wrapper_after_read cfg ans now (truthy force_refresh) a kw key (store w key)
           (w\<lparr>trace := trace w @ [FormatKey a kw, StorageGet key]\<rparr>))"
  unfolding wrapper_paths [OF assms(1)]
  using assms(2)
  by (simp add: Let_def wrapper_after_read_def notify_read_def emit_def
      split: option.splits)






section \<open>The rendezvous branch of \<open>refresh\<close>\<close>

text \<open>
  C3. When \<open>refresh\<close> is entered while the tracker reports the key as being updated:
  a caller with no current entry awaits the latch of the refresh in flight and returns
  the entry the latch delivers, or raises
  \<open>CachedMethodFailedException ''Concurrent refresh failed to complete''\<close> with the
  delivered failure as its cause; a caller that holds an entry gets that entry back at
  once. Neither starts work: the provider \<open>vfp\<close> is not called (the result does not depend
  on it), the state is untouched but for the record of the await.
\<close>

theorem refresh_rendezvous:
  assumes "is_being_updated (statuses w) key"
  shows "(latch_answer ans = Returned (Delivered e) \<longrightarrow>
            refresh cfg ans None key vfp w = (Returned e, emit (AwaitUpdated key) w))
       \<and> (latch_answer ans = Returned (Failed c) \<longrightarrow>
            refresh cfg ans None key vfp w =
              (Raised (CachedMethodFailedException ''Concurrent refresh failed to complete'' c),
               emit (AwaitUpdated key) w))
       \<and> refresh cfg ans (Some held) key vfp w = (Returned held, w)"
  using assms by (simp add: refresh_def await_updated_def)

theorem refresh_rendezvous_witness:
  "is_being_updated (statuses busy) sample_key
   \<and> refresh sample_cfg all_well None sample_key
       (value_future_provider all_well [PStr ''a''] []) busy =
       (Returned (sample_entry ''A1''), emit (AwaitUpdated sample_key) busy)
   \<and> refresh sample_cfg (all_well\<lparr>latch_answer := Returned (Failed TimeoutError)\<rparr>) None
       sample_key (value_future_provider all_well [PStr ''a''] []) busy =
       (Raised (CachedMethodFailedException ''Concurrent refresh failed to complete'' TimeoutError),
        emit (AwaitUpdated sample_key) busy)
   \<and> refresh sample_cfg all_well (Some (sample_entry ''A'')) sample_key
       (value_future_provider all_well [PStr ''a''] []) busy =
       (Returned (sample_entry ''A''), busy)"
proof -
  have b: "is_being_updated (statuses busy) sample_key"
    by (simp add: is_being_updated_def busy_def cold_def)
  show ?thesis
    using b
      refresh_rendezvous [OF b, of all_well "sample_entry ''A1''" sample_cfg
        "value_future_provider all_well [PStr ''a''] []" TimeoutError "sample_entry ''A''"]
      refresh_rendezvous [OF b, of "all_well\<lparr>latch_answer := Returned (Failed TimeoutError)\<rparr>"
        "sample_entry ''A1''" sample_cfg
        "value_future_provider all_well [PStr ''a''] []" TimeoutError "sample_entry ''A''"]
    by (simp add: all_well_def)
qed

section \<open>A refresh that cannot start\<close>

text \<open>
  C7. When no refresh of the key is in flight and making the pending work raises
  (\<open>method_call ans = Inl e\<close>), \<open>refresh\<close> raises
  \<open>CachedMethodFailedException ''Refresh failed to start''\<close> with \<open>e\<close> as its cause. The
  state changes by the record of the attempted call only: the tracker is as it was, no
  \<open>MarkBeingUpdated\<close> is recorded, no latch is made, the key is not being updated.
\<close>

theorem refresh_failed_to_start:
  assumes "\<not> is_being_updated (statuses w) key"
    and "method_call ans = Inl e"
  shows "refresh cfg ans actual_entry key (value_future_provider ans a kw) w =
           (Raised (CachedMethodFailedException ''Refresh failed to start'' e),
            w\<lparr>trace := trace w @ [MethodCalled a kw]\<rparr>)
       \<and> statuses (snd (refresh cfg ans actual_entry key (value_future_provider ans a kw) w)) =
           statuses w
       \<and> \<not> is_being_updated
             (statuses (snd (refresh cfg ans actual_entry key (value_future_provider ans a kw) w)))
             key"
  using assms by (simp add: refresh_def value_future_provider_def emit_def)

theorem refresh_failed_to_start_witness:
  "\<not> is_being_updated (statuses cold) sample_key
   \<and> method_call (all_well\<lparr>method_call := Inl (OtherError ''bad arguments'')\<rparr>) =
       Inl (OtherError ''bad arguments'')
   \<and> refresh sample_cfg (all_well\<lparr>method_call := Inl (OtherError ''bad arguments'')\<rparr>) None
       sample_key
       (value_future_provider (all_well\<lparr>method_call := Inl (OtherError ''bad arguments'')\<rparr>)
          [PStr ''a''] [])
       cold =
       (Raised (CachedMethodFailedException ''Refresh failed to start''
                  (OtherError ''bad arguments'')),
        cold\<lparr>trace := [MethodCalled [PStr ''a''] []]\<rparr>)"
proof -
  have idle: "\<not> is_being_updated (statuses cold) sample_key"
    by (simp add: is_being_updated_def cold_def)
  have raises: "method_call (all_well\<lparr>method_call := Inl (OtherError ''bad arguments'')\<rparr>) =
      Inl (OtherError ''bad arguments'')"
    by simp
  show ?thesis
    using idle refresh_failed_to_start [OF idle raises, of sample_cfg None "[PStr ''a'']" "[]"]
    by (simp add: cold_def)
qed

section \<open>Background release\<close>



section \<open>A refresh that succeeds\<close>

text \<open>
  C4. When no refresh of the key is in flight, the work returns \<open>v\<close>, the entry is built
  and the storage accepts it: \<open>refresh\<close> returns the built entry whatever the eviction
  strategy answers. The calls are made in this order: the entry is offered to the storage,
  then the latch is resolved with it (\<open>mark_updated\<close>), then the eviction strategy is
  told (\<open>mark_written\<close>) and asked for a key to release. A nominated key has its
  \<open>try_release\<close> scheduled and not run; an exception from \<open>mark_written\<close> or from
  \<open>next_to_release\<close> is logged and goes no further. At the end the storage holds the
  entry that the latch delivered, and the key is no longer being updated.
\<close>

theorem refresh_success_order:
  assumes "\<not> is_being_updated (statuses w) key"
    and "vfp w = (Inr (Returned v), w1)"
    and "build cfg key v = Inr offered_entry"
    and "offer_answer ans = Returned ()"
  shows "fst (refresh cfg ans actual_entry key vfp w) = Returned offered_entry
     \<and> trace (snd (refresh cfg ans actual_entry key vfp w)) =
         trace w1 @
           [MarkBeingUpdated key, Build key v, StorageOffer key offered_entry,
            MarkUpdated key offered_entry, MarkWritten key offered_entry] @
           (case mark_written_answer ans of
              Some x \<Rightarrow> [LogError ''ignoring failure during eviction after successful refresh'']
            | None \<Rightarrow>
                NextToRelease #
                (case next_to_release_answer ans of
                   Inl x \<Rightarrow> [LogError ''ignoring failure during eviction after successful refresh'']
                 | Inr _ \<Rightarrow> []))
     \<and> scheduled (snd (refresh cfg ans actual_entry key vfp w)) =
         scheduled w1 @
           (case mark_written_answer ans of
              Some x \<Rightarrow> []
            | None \<Rightarrow>
                (case next_to_release_answer ans of
                   Inr (Some to_release) \<Rightarrow> [TryReleaseTask to_release]
                 | _ \<Rightarrow> []))
     \<and> store (snd (refresh cfg ans actual_entry key vfp w)) = (store w1)(key \<mapsto> offered_entry)
     \<and> resolved (statuses (snd (refresh cfg ans actual_entry key vfp w)))
           (next_latch (statuses w1)) = Some (Delivered offered_entry)
     \<and> \<not> is_being_updated (statuses (snd (refresh cfg ans actual_entry key vfp w))) key"
proof -
  let ?w2 = "snd (mark_being_updated key w1)"
  let ?w3 = "notify_eviction ans key offered_entry
        (mark_updated key offered_entry
           (?w2\<lparr>store := (store ?w2)(key \<mapsto> offered_entry),
              trace := trace ?w2 @ [Build key v, StorageOffer key offered_entry]\<rparr>))"
  have st: "statuses ?w3 =
      (statuses w1)\<lparr>in_progress := (in_progress (statuses w1))(key := None),
                  resolved := (resolved (statuses w1))
                     (next_latch (statuses w1) \<mapsto> Delivered offered_entry),
                  next_latch := Suc (next_latch (statuses w1))\<rparr>"
    by (simp add: notify_eviction_fields resolve_fields claimed_fields tracker_resolve_def)
  have idle: "\<not> is_being_updated (statuses ?w3) key"
    "future_done (statuses ?w3) (next_latch (statuses w1))"
    by (simp_all add: st is_being_updated_def future_done_def)
  have "refresh cfg ans actual_entry key vfp w = (Returned offered_entry, ?w3)"
    using refresh_start [of w key vfp "Returned v" w1 cfg ans actual_entry] assms(1,2)
    by (simp add: refresh_try_success [OF assms(3,4)]
        refresh_except_def refresh_finally_idle [OF idle])
  then show ?thesis
    by (simp add: notify_eviction_fields resolve_fields claimed_fields is_being_updated_def
        tracker_resolve_def)
qed

theorem refresh_success_order_witness:
  "\<not> is_being_updated (statuses warm) sample_key
   \<and> fst (refresh sample_cfg
            (all_well\<lparr>next_to_release_answer := Inr (Some ([PStr ''old''], []))\<rparr>)
            None sample_key
            (value_future_provider all_well [PStr ''a''] []) warm) =
       Returned (sample_entry ''A2'')
   \<and> trace (snd (refresh sample_cfg
            (all_well\<lparr>next_to_release_answer := Inr (Some ([PStr ''old''], []))\<rparr>)
            None sample_key
            (value_future_provider all_well [PStr ''a''] []) warm)) =
       [MethodCalled [PStr ''a''] [], MarkBeingUpdated sample_key, Build sample_key ''A2'',
        StorageOffer sample_key (sample_entry ''A2''), MarkUpdated sample_key (sample_entry ''A2''),
        MarkWritten sample_key (sample_entry ''A2''), NextToRelease]
   \<and> scheduled (snd (refresh sample_cfg
            (all_well\<lparr>next_to_release_answer := Inr (Some ([PStr ''old''], []))\<rparr>)
            None sample_key
            (value_future_provider all_well [PStr ''a''] []) warm)) =
       [TryReleaseTask ([PStr ''old''], [])]
   \<and> fst (refresh sample_cfg
            (all_well\<lparr>mark_written_answer := Some (OtherError ''lru'')\<rparr>)
            None sample_key
            (value_future_provider all_well [PStr ''a''] []) warm) =
       Returned (sample_entry ''A2'')"
proof -
  have idle: "\<not> is_being_updated (statuses warm) sample_key"
    by (simp add: is_being_updated_def warm_def cold_def)
  have vfp: "value_future_provider all_well [PStr ''a''] [] warm =
      (Inr (Returned ''A2''), emit (MethodCalled [PStr ''a''] []) warm)"
    by (simp add: value_future_provider_def all_well_def)
  have built: "build sample_cfg sample_key ''A2'' = Inr (sample_entry ''A2'')"
    by (simp add: sample_cfg_def)
  show ?thesis
    using idle
      refresh_success_order [where vfp = "value_future_provider all_well [PStr ''a''] []"
        and ans = "all_well\<lparr>next_to_release_answer := Inr (Some ([PStr ''old''], []))\<rparr>"
        and actual_entry = None, OF idle vfp built]
      refresh_success_order [where vfp = "value_future_provider all_well [PStr ''a''] []"
        and ans = "all_well\<lparr>mark_written_answer := Some (OtherError ''lru'')\<rparr>"
        and actual_entry = None, OF idle vfp built]
    by (simp add: all_well_def emit_def warm_def cold_def)
qed

section \<open>A refresh that fails\<close>

text \<open>
  C5, as the claim states it, does not hold for every failure of the storage offer: the
  \<^verbatim>\<open>except\<close> clauses go by the type of the exception, whatever raised it inside the
  \<^verbatim>\<open>try\<close>. A storage offer that raises \<^verbatim>\<open>asyncio.TimeoutError\<close> is reported as
  \<open>''Refresh timed out''\<close>, not as \<open>''Refresh failed to complete''\<close>.
\<close>

theorem offer_timeout_is_refresh_timed_out:
  "fst (refresh sample_cfg (all_well\<lparr>offer_answer := Raised TimeoutError\<rparr>) None sample_key
          (value_future_provider (all_well\<lparr>offer_answer := Raised TimeoutError\<rparr>)
             [PStr ''a''] [])
          cold) =
     Raised (CachedMethodFailedException ''Refresh timed out'' TimeoutError)"
proof -
  have idle: "\<not> is_being_updated (statuses cold) sample_key"
    by (simp add: is_being_updated_def cold_def)
  have vfp: "value_future_provider (all_well\<lparr>offer_answer := Raised TimeoutError\<rparr>)
      [PStr ''a''] [] cold =
      (Inr (Returned ''A2''), emit (MethodCalled [PStr ''a''] []) cold)"
    by (simp add: value_future_provider_def all_well_def)
  have built: "build sample_cfg sample_key ''A2'' = Inr (sample_entry ''A2'')"
    by (simp add: sample_cfg_def)
  have failed: "offer_answer (all_well\<lparr>offer_answer := Raised TimeoutError\<rparr>) =
      Raised TimeoutError"
    by simp
  show ?thesis
    using refresh_aborted [where vfp = "value_future_provider
          (all_well\<lparr>offer_answer := Raised TimeoutError\<rparr>) [PStr ''a''] []"
        and cfg = sample_cfg and ans = "all_well\<lparr>offer_answer := Raised TimeoutError\<rparr>"
        and actual_entry = None, OF idle vfp refresh_try_fails(3) [OF built failed]]
    by simp
qed

text \<open>
  C5, amended. When the key has been claimed and an exception \<open>e\<close> is raised by the
  awaited work, by the entry builder or by the storage offer: \<open>refresh\<close> calls
  \<open>mark_update_aborted key e\<close> (the last call it makes, resolving the latch with the
  failure \<open>e\<close>) and raises \<open>CachedMethodFailedException\<close> with \<open>e\<close> as its cause, the
  message being \<open>''Refresh timed out''\<close> when \<open>e\<close> is \<^verbatim>\<open>asyncio.TimeoutError\<close> (from
  whichever of the three) and \<open>''Refresh failed to complete''\<close> otherwise. When the work
  or the builder failed, the storage was not called and its rows are as they were; when
  the offer failed, \<open>refresh\<close> calls the storage no more, and the rows are those the
  failed offer left.
\<close>

theorem refresh_failure:
  assumes "\<not> is_being_updated (statuses w) key"
    and "method_call ans = Inr value_future"
    and "value_future = Raised e
         \<or> (\<exists>v. value_future = Returned v \<and> build cfg key v = Inl e)
         \<or> (\<exists>v offered_entry. value_future = Returned v \<and> build cfg key v = Inr offered_entry
               \<and> offer_answer ans = Raised e)"
  shows "fst (refresh cfg ans actual_entry key (value_future_provider ans a kw) w) =
           Raised (CachedMethodFailedException
                     (if e = TimeoutError then ''Refresh timed out''
                      else ''Refresh failed to complete'') e)
       \<and> last (trace (snd (refresh cfg ans actual_entry key (value_future_provider ans a kw) w))) =
           MarkUpdateAborted key e
       \<and> resolved (statuses (snd (refresh cfg ans actual_entry key (value_future_provider ans a kw) w)))
             (next_latch (statuses w)) = Some (Failed e)
       \<and> \<not> is_being_updated
             (statuses (snd (refresh cfg ans actual_entry key (value_future_provider ans a kw) w))) key
       \<and> trace (snd (refresh cfg ans actual_entry key (value_future_provider ans a kw) w)) =
           trace w @ [MethodCalled a kw, MarkBeingUpdated key] @
             (case value_future of
                Returned v \<Rightarrow>
                  Build key v #
                  (case build cfg key v of
                     Inr offered_entry \<Rightarrow> [StorageOffer key offered_entry]
                   | Inl _ \<Rightarrow> [])
              | _ \<Rightarrow> []) @
             [MarkUpdateAborted key e]
       \<and> store (snd (refresh cfg ans actual_entry key (value_future_provider ans a kw) w)) =
           (case value_future of
              Returned v \<Rightarrow>
                (case build cfg key v of
                   Inr offered_entry \<Rightarrow> failed_offer_rows ans (store w)
                 | Inl _ \<Rightarrow> store w)
            | _ \<Rightarrow> store w)"
proof -
  let ?w1 = "emit (MethodCalled a kw) w"
  let ?w2 = "snd (mark_being_updated key ?w1)"
  let ?steps = "case value_future of
                Returned v \<Rightarrow>
                  Build key v #
                  (case build cfg key v of
                     Inr offered_entry \<Rightarrow> [StorageOffer key offered_entry]
                   | Inl _ \<Rightarrow> [])
              | _ \<Rightarrow> []"
  let ?rows = "case value_future of
              Returned v \<Rightarrow>
                (case build cfg key v of
                   Inr offered_entry \<Rightarrow> failed_offer_rows ans (store w)
                 | Inl _ \<Rightarrow> store w)
            | _ \<Rightarrow> store w"
  have vfp: "value_future_provider ans a kw w = (Inr value_future, ?w1)"
    by (simp add: value_future_provider_def assms(2))
  have "\<exists>w3. refresh_try cfg ans key value_future ?w2 = (Raised e, w3)
            \<and> statuses w3 = statuses ?w2 \<and> store w3 = ?rows
            \<and> trace w3 = trace ?w2 @ ?steps"
    using assms(3) by (auto simp add: refresh_try_fails claimed_fields emit_def)
  then obtain w3 where w3: "refresh_try cfg ans key value_future ?w2 = (Raised e, w3)"
    "statuses w3 = statuses ?w2" "store w3 = ?rows" "trace w3 = trace ?w2 @ ?steps"
    by blast
  show ?thesis
    using refresh_aborted [where w = w and key = key and vfp = "value_future_provider ans a kw"
        and ?w1.0 = ?w1 and ?w3.0 = w3 and e = e and cfg = cfg and ans = ans
        and value_future = value_future and actual_entry = actual_entry]
      assms(1) vfp w3
    by (simp add: claimed_fields is_being_updated_def emit_def)
qed

theorem refresh_failure_witness:
  "\<not> is_being_updated (statuses warm) sample_key
   \<and> fst (refresh sample_cfg (all_well\<lparr>method_call := Inr (Raised TimeoutError)\<rparr>)
            (Some (sample_entry ''A'')) sample_key
            (value_future_provider (all_well\<lparr>method_call := Inr (Raised TimeoutError)\<rparr>)
               [PStr ''a''] []) warm) =
       Raised (CachedMethodFailedException ''Refresh timed out'' TimeoutError)
   \<and> store (snd (refresh sample_cfg (all_well\<lparr>method_call := Inr (Raised TimeoutError)\<rparr>)
            (Some (sample_entry ''A'')) sample_key
            (value_future_provider (all_well\<lparr>method_call := Inr (Raised TimeoutError)\<rparr>)
               [PStr ''a''] []) warm)) = store warm
   \<and> fst (refresh sample_cfg (all_well\<lparr>offer_answer := Raised (OtherError ''disk'')\<rparr>)
            (Some (sample_entry ''A'')) sample_key
            (value_future_provider (all_well\<lparr>offer_answer := Raised (OtherError ''disk'')\<rparr>)
               [PStr ''a''] []) warm) =
       Raised (CachedMethodFailedException ''Refresh failed to complete'' (OtherError ''disk''))
   \<and> trace (snd (refresh sample_cfg (all_well\<lparr>offer_answer := Raised (OtherError ''disk'')\<rparr>)
            (Some (sample_entry ''A'')) sample_key
            (value_future_provider (all_well\<lparr>offer_answer := Raised (OtherError ''disk'')\<rparr>)
               [PStr ''a''] []) warm)) =
       [MethodCalled [PStr ''a''] [], MarkBeingUpdated sample_key, Build sample_key ''A2'',
        StorageOffer sample_key (sample_entry ''A2''),
        MarkUpdateAborted sample_key (OtherError ''disk'')]"
proof -
  have idle: "\<not> is_being_updated (statuses warm) sample_key"
    by (simp add: is_being_updated_def warm_def cold_def)
  have timeout: "method_call (all_well\<lparr>method_call := Inr (Raised TimeoutError)\<rparr>) =
      Inr (Raised TimeoutError)"
    by simp
  have work: "method_call (all_well\<lparr>offer_answer := Raised (OtherError ''disk'')\<rparr>) =
      Inr (Returned ''A2'')"
    by (simp add: all_well_def)
  have first: "Raised TimeoutError = (Raised TimeoutError :: string outcome)
         \<or> (\<exists>v. Raised TimeoutError = Returned v \<and> build sample_cfg sample_key v = Inl TimeoutError)
         \<or> (\<exists>v offered_entry. Raised TimeoutError = Returned v
               \<and> build sample_cfg sample_key v = Inr offered_entry
               \<and> offer_answer (all_well\<lparr>method_call := Inr (Raised TimeoutError)\<rparr>) =
                   Raised TimeoutError)"
    by simp
  have second: "Returned ''A2'' = (Raised (OtherError ''disk'') :: string outcome)
         \<or> (\<exists>v. Returned ''A2'' = Returned v
               \<and> build sample_cfg sample_key v = Inl (OtherError ''disk''))
         \<or> (\<exists>v offered_entry. Returned ''A2'' = Returned v
               \<and> build sample_cfg sample_key v = Inr offered_entry
               \<and> offer_answer (all_well\<lparr>offer_answer := Raised (OtherError ''disk'')\<rparr>) =
                   Raised (OtherError ''disk''))"
    by (simp add: sample_cfg_def)
  have built: "build sample_cfg sample_key ''A2'' = Inr (sample_entry ''A2'')"
    by (simp add: sample_cfg_def)
  have fresh: "trace warm = []"
    by (simp add: warm_def cold_def)
  show ?thesis
    using idle
      refresh_failure [OF idle timeout first, of "Some (sample_entry ''A'')" "[PStr ''a'']" "[]"]
      refresh_failure [OF idle work second, of "Some (sample_entry ''A'')" "[PStr ''a'']" "[]"]
    by (simp add: built fresh)
qed

section \<open>Leaving \<open>refresh\<close>\<close>

text \<open>
  C6. Once the key has been claimed, however \<open>refresh\<close> ends (a value, an exception, a
  cancellation at either await), the key is not reported as being updated and the latch
  made by \<open>mark_being_updated\<close> is done. When the coroutine is cancelled, so that neither
  \<open>mark_updated\<close> nor an \<^verbatim>\<open>except\<close> clause has resolved the latch, the \<^verbatim>\<open>finally\<close>
  clause calls \<open>mark_update_aborted\<close> with the error
  \<open>RuntimeError ''Attempt to exit refresh with unfinished future''\<close>, and the latch
  delivers that failure.
\<close>

theorem refresh_exit_resolves_latch:
  assumes "\<not> is_being_updated (statuses w) key"
    and "vfp w = (Inr value_future, w1)"
  shows "\<not> is_being_updated (statuses (snd (refresh cfg ans actual_entry key vfp w))) key
       \<and> future_done (statuses (snd (refresh cfg ans actual_entry key vfp w)))
            (next_latch (statuses w1))
       \<and> (fst (refresh cfg ans actual_entry key vfp w) = Cancelled \<longrightarrow>
            resolved (statuses (snd (refresh cfg ans actual_entry key vfp w)))
                (next_latch (statuses w1)) =
              Some (Failed (RuntimeError ''Attempt to exit refresh with unfinished future''))
          \<and> last (trace (snd (refresh cfg ans actual_entry key vfp w))) =
              MarkUpdateAborted key
                (RuntimeError ''Attempt to exit refresh with unfinished future''))"
proof -
  let ?w2 = "snd (mark_being_updated key w1)"
  let ?t = "refresh_try cfg ans key value_future ?w2"
  have start: "refresh cfg ans actual_entry key vfp w =
      refresh_finally key (next_latch (statuses w1)) (refresh_except key ?t)"
    using refresh_start [of w key vfp value_future w1 cfg ans actual_entry] assms by simp
  have always: "\<not> is_being_updated (statuses (snd (refresh cfg ans actual_entry key vfp w))) key
       \<and> future_done (statuses (snd (refresh cfg ans actual_entry key vfp w)))
            (next_latch (statuses w1))"
    by (simp add: start refresh_finally_post)
  have cancelled: "resolved (statuses (snd (refresh cfg ans actual_entry key vfp w)))
                (next_latch (statuses w1)) =
              Some (Failed (RuntimeError ''Attempt to exit refresh with unfinished future''))
          \<and> last (trace (snd (refresh cfg ans actual_entry key vfp w))) =
              MarkUpdateAborted key
                (RuntimeError ''Attempt to exit refresh with unfinished future'')"
    if c: "fst (refresh cfg ans actual_entry key vfp w) = Cancelled"
  proof -
    obtain r w3 where t: "?t = (r, w3)"
      by (cases ?t)
    from c have r: "r = Cancelled"
      by (simp add: start t refresh_finally_post refresh_except_cancelled)
    have "statuses w3 = statuses ?w2"
      using refresh_try_cancelled_statuses [of cfg ans key value_future ?w2] t r by simp
    then have st: "in_progress (statuses w3) key = Some (next_latch (statuses w1))"
      by (simp add: claimed_fields)
    have "refresh cfg ans actual_entry key vfp w =
        (Cancelled, mark_update_aborted key
           (RuntimeError ''Attempt to exit refresh with unfinished future'') w3)"
      using refresh_finally_unresolved [OF st, of Cancelled]
      by (simp add: start t r refresh_except_cancelled)
    then show ?thesis
      using st by (simp add: resolve_fields tracker_resolve_def)
  qed
  from always cancelled show ?thesis by blast
qed

theorem refresh_exit_resolves_latch_witness:
  "\<not> is_being_updated (statuses cold) sample_key
   \<and> \<not> is_being_updated
        (statuses (snd (refresh sample_cfg (all_well\<lparr>method_call := Inr Cancelled\<rparr>) None sample_key
           (value_future_provider (all_well\<lparr>method_call := Inr Cancelled\<rparr>) [PStr ''a''] [])
           cold))) sample_key
   \<and> fst (refresh sample_cfg (all_well\<lparr>method_call := Inr Cancelled\<rparr>) None sample_key
           (value_future_provider (all_well\<lparr>method_call := Inr Cancelled\<rparr>) [PStr ''a''] [])
           cold) = Cancelled
   \<and> resolved
        (statuses (snd (refresh sample_cfg (all_well\<lparr>method_call := Inr Cancelled\<rparr>) None sample_key
           (value_future_provider (all_well\<lparr>method_call := Inr Cancelled\<rparr>) [PStr ''a''] [])
           cold))) 0 =
       Some (Failed (RuntimeError ''Attempt to exit refresh with unfinished future''))"
proof -
  have idle: "\<not> is_being_updated (statuses cold) sample_key"
    by (simp add: is_being_updated_def cold_def)
  have vfp: "value_future_provider (all_well\<lparr>method_call := Inr Cancelled\<rparr>) [PStr ''a''] [] cold =
      (Inr Cancelled, emit (MethodCalled [PStr ''a''] []) cold)"
    by (simp add: value_future_provider_def)
  have c: "fst (refresh sample_cfg (all_well\<lparr>method_call := Inr Cancelled\<rparr>) None sample_key
           (value_future_provider (all_well\<lparr>method_call := Inr Cancelled\<rparr>) [PStr ''a''] [])
           cold) = Cancelled"
    using refresh_start [where vfp =
        "value_future_provider (all_well\<lparr>method_call := Inr Cancelled\<rparr>) [PStr ''a''] []"
        and cfg = sample_cfg and ans = "all_well\<lparr>method_call := Inr Cancelled\<rparr>"
        and actual_entry = None, OF idle vfp]
    by (simp add: refresh_try_cancelled refresh_except_cancelled refresh_finally_post)
  show ?thesis
    using idle c
      refresh_exit_resolves_latch [where vfp =
        "value_future_provider (all_well\<lparr>method_call := Inr Cancelled\<rparr>) [PStr ''a''] []"
        and cfg = sample_cfg and ans = "all_well\<lparr>method_call := Inr Cancelled\<rparr>"
        and actual_entry = None, OF idle vfp]
    by (simp add: emit_def cold_def)
qed

section \<open>The dispatch of \<open>wrapper\<close>\<close>




section \<open>A storage read that fails\<close>

text \<open>
  C8, as the claim states it, does not hold: \<open>wrapper\<close> awaits \<open>storage.get\<close> outside any
  \<^verbatim>\<open>try\<close>. On an empty cache, with a storage whose \<open>get\<close> raises, the caller receives
  the storage's own exception; the method is never called and no refresh takes place.
\<close>

theorem storage_get_failure_surfaces:
  "wrapper sample_cfg (all_well\<lparr>get_answer := Raised (OtherError ''storage down'')\<rparr>) 0
     [PStr ''a''] [] cold =
     (Raised (OtherError ''storage down''),
      cold\<lparr>trace := [FormatKey [PStr ''a''] [], StorageGet sample_key]\<rparr>)"
  by (simp add: wrapper_def kwargs_pop_def storage_get_def emit_def sample_cfg_def sample_key_def
      cold_def)

text \<open>
  C8, amended. When \<open>storage.get\<close> raises, the call ends there with that exception, as it
  was raised: the key was derived and the storage asked, nothing else was called, the
  cache is as it was.
\<close>

theorem storage_get_failure:
  assumes "configured cfg"
    and "get_answer ans = Raised e"
  shows "wrapper cfg ans now a kwargs0 w =
     (Raised e,
      w\<lparr>trace := trace w @
        [FormatKey a (snd (kwargs_pop kwargs0 ''force_refresh_memoized'' (PBool False))),
         StorageGet
           (format_key cfg a (snd (kwargs_pop kwargs0 ''force_refresh_memoized'' (PBool False))))]\<rparr>)"
  using assms
  by (simp add: wrapper_def storage_get_def emit_def Let_def split: prod.splits)

theorem storage_get_failure_witness:
  "configured sample_cfg
   \<and> wrapper sample_cfg (all_well\<lparr>get_answer := Raised TimeoutError\<rparr>) 25
       [PStr ''a''] [(''force_refresh_memoized'', PBool True)] warm =
     (Raised TimeoutError, warm\<lparr>trace := [FormatKey [PStr ''a''] [], StorageGet sample_key]\<rparr>)"
proof -
  have ready: "configured sample_cfg"
    by (simp add: sample_cfg_def)
  have fails: "get_answer (all_well\<lparr>get_answer := Raised TimeoutError\<rparr>) = Raised TimeoutError"
    by simp
  show ?thesis
    using ready
      storage_get_failure [OF ready fails, of 25 "[PStr ''a'']"
        "[(''force_refresh_memoized'', PBool True)]" warm]
    by (simp add: kwargs_pop_def sample_cfg_def sample_key_def warm_def cold_def)
qed

section \<open>The reserved named argument\<close>

text \<open>
  C9, as the claim states it, does not hold: the name that \<open>wrapper\<close> pops is
  \<open>force_refresh_memoized\<close>. A named argument \<open>force_refresh = True\<close> stays among the
  named arguments: the key is derived from it, a fresh entry is returned with no refresh
  although the argument is true, and on an empty cache the user's method is called with
  it.
\<close>

theorem reserved_name_is_not_force_refresh:
  "wrapper sample_cfg all_well 5 [PStr ''a''] [(''force_refresh'', PBool True)] flagged_warm =
     (Returned ''A!'',
      flagged_warm\<lparr>trace :=
        [FormatKey [PStr ''a''] [(''force_refresh'', PBool True)], StorageGet flagged_key,
         MarkRead flagged_key]\<rparr>)
   \<and> method_calls
       (trace (snd (wrapper sample_cfg all_well 5 [PStr ''a''] [(''force_refresh'', PBool True)]
                      cold))) =
     [([PStr ''a''], [(''force_refresh'', PBool True)])]"
proof -
  have ready: "configured sample_cfg"
    by (simp add: sample_cfg_def)
  have got: "get_answer all_well = Returned ()" and read: "mark_read_answer all_well = None"
    by (simp_all add: all_well_def)
  have first: "wrapper sample_cfg all_well 5 [PStr ''a''] [(''force_refresh'', PBool True)]
      flagged_warm =
     (Returned ''A!'',
      flagged_warm\<lparr>trace :=
        [FormatKey [PStr ''a''] [(''force_refresh'', PBool True)], StorageGet flagged_key,
         MarkRead flagged_key]\<rparr>)"
    by (subst wrapper_reaches_dispatch [OF ready got read])
      (simp add: kwargs_pop_def Let_def dispatch_def return_value_def sample_cfg_def
        sample_entry_def flagged_warm_def flagged_key_def cold_def)
  have second: "method_calls
       (trace (snd (wrapper sample_cfg all_well 5 [PStr ''a''] [(''force_refresh'', PBool True)]
                      cold))) =
     [([PStr ''a''], [(''force_refresh'', PBool True)])]"
    by (subst wrapper_reaches_dispatch [OF ready got read])
      (simp add: kwargs_pop_def Let_def dispatch_def return_value_snd refresh_observed
        is_being_updated_def cold_def)
  from first second show ?thesis by simp
qed

text \<open>
  C9, amended. The reserved named argument is \<open>force_refresh_memoized\<close>, \<open>False\<close> when
  absent. On every call with a ready configuration it, and nothing else, is removed from
  the named arguments: the one key derivation of the call and the at most one call of the
  user's method receive the named arguments without it. When it is true and the storage
  holds an entry for the key (the read and its notification returning), the call is the
  blocking \<open>refresh\<close> with that entry as current.
\<close>

theorem reserved_flag_popped:
  fixes cfg :: "('k, 'v) configuration" and ans :: "('k, 'v) answers"
    and a :: args and kwargs0 :: kwargs and w :: "('k, 'v) world" and now :: int
  assumes "configured cfg"
  defines "kw \<equiv> snd (kwargs_pop kwargs0 ''force_refresh_memoized'' (PBool False))"
  defines "w' \<equiv> snd (wrapper cfg ans now a kwargs0 w)"
  shows "kw = filter (\<lambda>item. fst item \<noteq> ''force_refresh_memoized'') kwargs0
       \<and> ''force_refresh_memoized'' \<notin> fst ` set kw
       \<and> key_derivations (trace w') = key_derivations (trace w) @ [(a, kw)]
       \<and> (method_calls (trace w') = method_calls (trace w)
          \<or> method_calls (trace w') = method_calls (trace w) @ [(a, kw)])
       \<and> (map_of kwargs0 ''force_refresh_memoized'' = None \<longrightarrow>
            fst (kwargs_pop kwargs0 ''force_refresh_memoized'' (PBool False)) = PBool False)
       \<and> (get_answer ans = Returned () \<and> mark_read_answer ans = None
            \<and> store w (format_key cfg a kw) = Some ce
            \<and> map_of kwargs0 ''force_refresh_memoized'' = Some v \<and> truthy v \<longrightarrow>
            wrapper cfg ans now a kwargs0 w =
              return_value cfg
                (refresh cfg ans (Some ce) (format_key cfg a kw) (value_future_provider ans a kw)
                   (w\<lparr>trace := trace w @
                        [FormatKey a kw, StorageGet (format_key cfg a kw),
                         MarkRead (format_key cfg a kw)]\<rparr>)))"
proof -
  let ?key = "format_key cfg a kw"
  let ?force = "truthy (fst (kwargs_pop kwargs0 ''force_refresh_memoized'' (PBool False)))"
  let ?w1 = "w\<lparr>trace := trace w @ [FormatKey a kw, StorageGet ?key]\<rparr>"
  let ?w2 = "w\<lparr>trace := trace w @ [FormatKey a kw, StorageGet ?key, MarkRead ?key]\<rparr>"
  note paths = wrapper_paths [OF assms(1), of ans now a kwargs0 w, unfolded Let_def,
      folded kw_def]
  have popped: "''force_refresh_memoized'' \<notin> fst ` set kw"
    unfolding kw_def by (rule kwargs_pop_removes)
  have kept: "kw = filter (\<lambda>item. fst item \<noteq> ''force_refresh_memoized'') kwargs0"
    unfolding kw_def by (rule kwargs_pop_filter)
  have "w' = ?w1 \<or> w' = ?w2
      \<or> w' = snd (dispatch cfg ans now ?force None ?key a kw ?w1)
      \<or> w' = snd (dispatch cfg ans now ?force (store w ?key) ?key a kw ?w2)"
  proof (cases "get_answer ans")
    case (Returned u)
    show ?thesis
    proof (cases "store w ?key")
      case None
      with Returned show ?thesis
        unfolding w'_def paths by (simp add: return_value_snd)
    next
      case (Some ce)
      with Returned show ?thesis
        unfolding w'_def paths
        by (cases "mark_read_answer ans") (simp_all add: return_value_snd)
    qed
  next
    case (Raised e)
    then show ?thesis
      unfolding w'_def paths by simp
  next
    case Cancelled
    then show ?thesis
      unfolding w'_def paths by simp
  qed
  then have obs: "key_derivations (trace w') = key_derivations (trace w) @ [(a, kw)]
       \<and> (method_calls (trace w') = method_calls (trace w)
          \<or> method_calls (trace w') = method_calls (trace w) @ [(a, kw)])"
  proof (elim disjE)
    assume "w' = ?w1"
    then show ?thesis by (simp add: key_derivations_append method_calls_append)
  next
    assume "w' = ?w2"
    then show ?thesis by (simp add: key_derivations_append method_calls_append)
  next
    assume "w' = snd (dispatch cfg ans now ?force None ?key a kw ?w1)"
    then show ?thesis
      using dispatch_observed(1) [of cfg ans now ?force None ?key a kw ?w1]
      by (auto simp add: dispatch_observed(2) key_derivations_append method_calls_append)
  next
    assume "w' = snd (dispatch cfg ans now ?force (store w ?key) ?key a kw ?w2)"
    then show ?thesis
      using dispatch_observed(1) [of cfg ans now ?force "store w ?key" ?key a kw ?w2]
      by (auto simp add: dispatch_observed(2) key_derivations_append method_calls_append)
  qed
  have dflt: "fst (kwargs_pop kwargs0 ''force_refresh_memoized'' (PBool False)) = PBool False"
    if "map_of kwargs0 ''force_refresh_memoized'' = None"
    using that by (simp add: kwargs_pop_flag)
  have forced: "wrapper cfg ans now a kwargs0 w =
      return_value cfg
        (refresh cfg ans (Some ce) ?key (value_future_provider ans a kw) ?w2)"
    if "get_answer ans = Returned ()" "mark_read_answer ans = None" "store w ?key = Some ce"
      "map_of kwargs0 ''force_refresh_memoized'' = Some v" "truthy v"
    unfolding paths by (simp add: that kwargs_pop_flag dispatch_def)
  from kept popped obs dflt forced show ?thesis by blast
qed

theorem reserved_flag_popped_witness:
  "''force_refresh_memoized'' \<notin> fst ` set ([] :: kwargs)
   \<and> key_derivations
       (trace (snd (wrapper sample_cfg all_well 5 [PStr ''a'']
                      [(''force_refresh_memoized'', PBool True)] warm))) =
     [([PStr ''a''], [])]
   \<and> wrapper sample_cfg all_well 5 [PStr ''a''] [(''force_refresh_memoized'', PBool True)] warm =
     return_value sample_cfg
       (refresh sample_cfg all_well (Some (sample_entry ''A'')) sample_key
          (value_future_provider all_well [PStr ''a''] [])
          (warm\<lparr>trace := [FormatKey [PStr ''a''] [], StorageGet sample_key,
                            MarkRead sample_key]\<rparr>))"
proof -
  have ready: "configured sample_cfg"
    by (simp add: sample_cfg_def)
  have got: "get_answer all_well = Returned ()" and read: "mark_read_answer all_well = None"
    by (simp_all add: all_well_def)
  have pop: "kwargs_pop [(''force_refresh_memoized'', PBool True)] ''force_refresh_memoized''
      (PBool False) = (PBool True, [])"
    by (simp add: kwargs_pop_def)
  have key: "format_key sample_cfg [PStr ''a''] [] = sample_key"
    by (simp add: sample_cfg_def sample_key_def)
  have held: "store warm sample_key = Some (sample_entry ''A'')" and fresh: "trace warm = []"
    by (simp_all add: warm_def cold_def)
  note inst = reserved_flag_popped [OF ready, where ans = all_well and now = 5
      and a = "[PStr ''a'']" and ?kwargs0.0 = "[(''force_refresh_memoized'', PBool True)]"
      and w = warm and ce = "sample_entry ''A''" and v = "PBool True"]
  have derived: "key_derivations
       (trace (snd (wrapper sample_cfg all_well 5 [PStr ''a'']
                      [(''force_refresh_memoized'', PBool True)] warm))) =
     [([PStr ''a''], [])]"
    using inst by (simp add: pop fresh)
  have forced: "wrapper sample_cfg all_well 5 [PStr ''a'']
       [(''force_refresh_memoized'', PBool True)] warm =
     return_value sample_cfg
       (refresh sample_cfg all_well (Some (sample_entry ''A'')) sample_key
          (value_future_provider all_well [PStr ''a''] [])
          (warm\<lparr>trace := [FormatKey [PStr ''a''] [], StorageGet sample_key,
                            MarkRead sample_key]\<rparr>))"
    using inst by (simp add: pop key held fresh got read)
  show ?thesis
    by (intro conjI, simp, rule derived, rule forced)
qed

section \<open>Callers of one key\<close>




end
